theory Spec2Isabelle
  imports Complex_Main "HOL-Library.AList"
begin

section \<open>Text\<close>

text \<open>
  A Python \<open>str\<close> is modelled as a \<open>string\<close> whose characters are the code points
  below 256 (Latin-1), so that an e-acute is the one character \<open>CHR 0xE9\<close>. Text with
  code points above 255 is outside the model. On Latin-1, \<open>str.lower\<close> moves the letters
  \<open>A\<close> to \<open>Z\<close> and the accented capitals \<open>0xC0\<close> to \<open>0xDE\<close> (the multiplication sign
  \<open>0xD7\<close> apart) 32 places up and leaves every other character alone.
\<close>

definition is_digit :: "char \<Rightarrow> bool" where
  \<comment> \<open>\<open>\d\<close> of \<open>re\<close>: in Latin-1 the decimal digits are \<open>0\<close> to \<open>9\<close>.\<close>
  "is_digit c = (c \<in> set ''0123456789'')"

definition is_space :: "char \<Rightarrow> bool" where
  \<comment> \<open>The characters \<open>str.strip()\<close> removes.\<close>
  "is_space c = (of_char c \<in> set [9, 10, 11, 12, 13, 28, 29, 30, 31, 32, 133, 160 :: nat])"

definition str_strip :: "string \<Rightarrow> string" where
  "str_strip s = rev (dropWhile is_space (rev (dropWhile is_space s)))"

definition lower_char :: "char \<Rightarrow> char" where
  "lower_char c =
     (let n = (of_char c :: nat)
      in if (65 \<le> n \<and> n \<le> 90) \<or> (192 \<le> n \<and> n \<le> 222 \<and> n \<noteq> 215)
         then char_of (n + 32) else c)"

definition str_lower :: "string \<Rightarrow> string" where
  "str_lower s = map lower_char s"

fun starts_with :: "string \<Rightarrow> string \<Rightarrow> bool" where
  \<comment> \<open>\<open>starts_with k x\<close>: the text \<open>x\<close> begins with \<open>k\<close>.\<close>
  "starts_with [] x = True"
| "starts_with (k # ks) [] = False"
| "starts_with (k # ks) (c # cs) = (k = c \<and> starts_with ks cs)"

fun contains :: "string \<Rightarrow> string \<Rightarrow> bool" where
  \<comment> \<open>\<open>contains k x\<close> is Python's \<open>k in x\<close> on strings.\<close>
  "contains k [] = (k = [])"
| "contains k (c # cs) = (starts_with k (c # cs) \<or> contains k cs)"

fun str_replace :: "string \<Rightarrow> string \<Rightarrow> string \<Rightarrow> string" where
  \<comment> \<open>\<open>x.replace(old, new)\<close> for a non-empty \<open>old\<close> (both call sites pass one):
      occurrences are replaced from left to right, without overlap.\<close>
  "str_replace old new [] = []"
| "str_replace old new (c # cs) =
     (if old \<noteq> [] \<and> starts_with old (c # cs)
      then new @ str_replace old new (drop (length old - 1) cs)
      else c # str_replace old new cs)"

fun digit_runs :: "string \<Rightarrow> string \<Rightarrow> string list" where
  \<comment> \<open>The maximal runs of digits of a text, left to right; the first argument is the
      run being read.\<close>
  "digit_runs cur [] = (if cur = [] then [] else [cur])"
| "digit_runs cur (c # cs) =
     (if is_digit c then digit_runs (cur @ [c]) cs
      else if cur = [] then digit_runs [] cs
      else cur # digit_runs [] cs)"

definition findall_digits :: "string \<Rightarrow> string list" where
  \<comment> \<open>\<open>re.findall(r'\d+', x)\<close>\<close>
  "findall_digits x = digit_runs [] x"

definition digit_val :: "char \<Rightarrow> nat" where
  "digit_val c = of_char c - 48"

definition py_float :: "string \<Rightarrow> real" where
  \<comment> \<open>\<open>float(ds)\<close> for a run of digits, as the exact number the digits denote
      (a Python float is that number for every run below \<open>2^53\<close>).\<close>
  "py_float ds = foldl (\<lambda>a c. 10 * a + real (digit_val c)) 0 ds"

fun str_of_nat :: "nat \<Rightarrow> string" where
  \<comment> \<open>The decimal text of a non-negative integer, as an f-string prints it.\<close>
  "str_of_nat n =
     (if n < 10 then [char_of (48 + n)]
      else str_of_nat (n div 10) @ [char_of (48 + n mod 10)])"

declare str_of_nat.simps [simp del]

definition astype_str :: "string option \<Rightarrow> string" where
  \<comment> \<open>\<open>str(v)\<close> of a cell: a missing value prints as \<open>None\<close>.\<close>
  "astype_str v = (case v of None \<Rightarrow> ''None'' | Some t \<Rightarrow> t)"

section \<open>Tables\<close>

text \<open>
  A raw table is what the scraper builds: an index of row labels and named columns of
  text cells, a cell being a string or missing (\<open>None\<close>). The cleaner adds one numeric
  column \<open>prix_num\<close> for a while; it has a field of its own, so a table of this type
  holds text everywhere else. Columns are stored whole, as pandas stores them. In
  \<open>columns\<close> the numeric column stands last; pandas would leave it in the place of a text
  column of that name it replaces, which no later step can see, since the column is
  dropped before the columns are selected by name.

  The numbers of the numeric column are exact reals: a Python float is the exact value of
  a run of digits below \<open>2^53\<close>, and the rounding of the mean is not modelled.
\<close>

record dataframe =
  index :: "int list"
  cols :: "(string \<times> string option list) list"
  prix_num :: "real option list option"

definition columns :: "dataframe \<Rightarrow> string list" where
  "columns df =
     map fst (cols df) @ (case prix_num df of None \<Rightarrow> [] | Some v \<Rightarrow> [''prix_num''])"

definition df_empty :: "dataframe \<Rightarrow> bool" where
  \<comment> \<open>\<open>df.empty\<close>: one of the two axes has length 0.\<close>
  "df_empty df = (columns df = [] \<or> index df = [])"

definition select_mask :: "bool list \<Rightarrow> 'a list \<Rightarrow> 'a list" where
  "select_mask m xs = map fst (filter snd (zip xs m))"

definition mask_rows :: "bool list \<Rightarrow> dataframe \<Rightarrow> dataframe" where
  \<comment> \<open>\<open>df[mask]\<close> with a boolean mask: a new table of the rows whose mask is true.\<close>
  "mask_rows m df =
     \<lparr>index = select_mask m (index df),
      cols = map (\<lambda>(name, xs). (name, select_mask m xs)) (cols df),
      prix_num = map_option (select_mask m) (prix_num df)\<rparr>"

definition set_prix_num :: "real option list \<Rightarrow> dataframe \<Rightarrow> dataframe" where
  \<comment> \<open>\<open>df['prix_num'] = v\<close>: the column is created, or replaces one of that name.\<close>
  "set_prix_num v df =
     df\<lparr>cols := filter (\<lambda>p. fst p \<noteq> ''prix_num'') (cols df), prix_num := Some v\<rparr>"

definition drop_prix_num :: "dataframe \<Rightarrow> dataframe" where
  \<comment> \<open>\<open>df.drop('prix_num', axis=1)\<close>\<close>
  "drop_prix_num df =
     df\<lparr>cols := filter (\<lambda>p. fst p \<noteq> ''prix_num'') (cols df), prix_num := None\<rparr>"

definition set_col :: "string \<Rightarrow> string option list \<Rightarrow> dataframe \<Rightarrow> dataframe" where
  \<comment> \<open>\<open>df[name] = v\<close> for a text column.\<close>
  "set_col name v df = df\<lparr>cols := AList.update name v (cols df)\<rparr>"

definition select_cols :: "string list \<Rightarrow> dataframe \<Rightarrow> dataframe" where
  \<comment> \<open>\<open>df[[c for c in names if c in df.columns]]\<close>\<close>
  "select_cols names df =
     \<lparr>index = index df,
      cols = List.map_filter (\<lambda>c. map_option (Pair c) (map_of (cols df) c)) names,
      prix_num = None\<rparr>"

definition reset_index :: "dataframe \<Rightarrow> dataframe" where
  \<comment> \<open>\<open>df.reset_index(drop=True)\<close>\<close>
  "reset_index df = df\<lparr>index := map int [0..<length (index df)]\<rparr>"

section \<open>The cleaner: what each block computes\<close>

definition keywords_list :: "string list" where
  \<comment> \<open>The list \<open>keywords\<close> of block 2; the second is \<open>negociable\<close> with e-acute (U+00E9).\<close>
  "keywords_list = [''demande'', CHR ''n'' # CHR 0xE9 # ''gociable'', ''contacter'', ''appeler'']"

definition columns_to_keep :: "string list" where
  "columns_to_keep = [''nom'', ''prix'', ''adresse'', ''image_lien'']"

definition nom_mask :: "string option list \<Rightarrow> bool list" where
  \<comment> \<open>\<open>nom.notna() & (nom.str.len() > 0)\<close>; the length of a missing cell is NaN,
      and \<open>NaN > 0\<close> is false.\<close>
  "nom_mask noms =
     map (\<lambda>v. v \<noteq> None \<and> (case map_option length v of None \<Rightarrow> False | Some n \<Rightarrow> n > 0)) noms"

definition on_request :: "string \<Rightarrow> bool" where
  \<comment> \<open>\<open>any(keyword in x for keyword in keywords)\<close>\<close>
  "on_request x = list_ex (\<lambda>keyword. contains keyword x) keywords_list"

definition prix_mask :: "string option list \<Rightarrow> bool list" where
  "prix_mask prix = map (\<lambda>v. \<not> on_request (str_lower (astype_str v))) prix"

definition parse_prix :: "string \<Rightarrow> real option" where
  \<comment> \<open>\<open>float(re.findall(r'\d+', x)[0]) if re.findall(r'\d+', x) else None\<close>\<close>
  "parse_prix x = (case findall_digits x of [] \<Rightarrow> None | r # rs \<Rightarrow> Some (py_float r))"

definition price_of :: "string option \<Rightarrow> real option" where
  \<comment> \<open>One cell of \<open>prix.astype(str).str.replace(' ', '').str.replace('CFA', '').apply(...)\<close>\<close>
  "price_of v = parse_prix (str_replace ''CFA'' [] (str_replace '' '' [] (astype_str v)))"

fun dropna :: "'a option list \<Rightarrow> 'a list" where
  "dropna [] = []"
| "dropna (None # vs) = dropna vs"
| "dropna (Some v # vs) = v # dropna vs"

definition mean :: "real list \<Rightarrow> real" where
  "mean xs = sum_list xs / real (length xs)"

definition seuil_mask :: "real \<Rightarrow> real option list \<Rightarrow> bool list" where
  \<comment> \<open>\<open>prix_num.isna() | (prix_num >= seuil)\<close>\<close>
  "seuil_mask seuil nums = map (\<lambda>p. case p of None \<Rightarrow> True | Some x \<Rightarrow> x \<ge> seuil) nums"

fun new_noms :: "(string option \<rightharpoonup> nat) \<Rightarrow> string option list \<Rightarrow> string option list" where
  \<comment> \<open>The loop of block 4; the first argument is the dictionary \<open>nom_counts\<close>.\<close>
  "new_noms nom_counts [] = []"
| "new_noms nom_counts (nom # rest) =
     (case nom_counts nom of
        Some k \<Rightarrow>
          Some (astype_str nom @ '' '' @ str_of_nat (k + 1))
            # new_noms (nom_counts(nom \<mapsto> k + 1)) rest
      | None \<Rightarrow> nom # new_noms (nom_counts(nom \<mapsto> 0)) rest)"

section \<open>The cleaner on a store of tables\<close>

text \<open>
  Tables are objects: \<open>clean_beautifulsoup_data\<close> receives a reference and returns one.
  The store maps addresses to tables; \<open>alloc\<close> is every pandas operation that builds a
  new table (\<open>copy\<close>, boolean indexing, \<open>drop\<close>, column selection, \<open>reset_index\<close>),
  \<open>assign\<close> is an assignment to a column of an existing table, which changes it in place.
\<close>

record store =
  mem :: "nat \<Rightarrow> dataframe"
  fresh :: nat

definition alloc :: "store \<Rightarrow> dataframe \<Rightarrow> store \<times> nat" where
  "alloc s d = (s\<lparr>mem := (mem s)(fresh s := d), fresh := Suc (fresh s)\<rparr>, fresh s)"

definition assign :: "store \<Rightarrow> nat \<Rightarrow> dataframe \<Rightarrow> store" where
  "assign s c d = s\<lparr>mem := (mem s)(c := d)\<rparr>"

definition drop_missing_names :: "store \<Rightarrow> nat \<Rightarrow> store \<times> nat" where
  \<comment> \<open>Block 1 (lines 36-40).\<close>
  "drop_missing_names s c =
     (case map_of (cols (mem s c)) ''nom'' of
        None \<Rightarrow> (s, c)
      | Some noms \<Rightarrow> alloc s (mask_rows (nom_mask noms) (mem s c)))"

definition drop_on_request :: "store \<Rightarrow> nat \<Rightarrow> store \<times> nat" where
  \<comment> \<open>Block 2 (lines 43-52).\<close>
  "drop_on_request s c =
     (case map_of (cols (mem s c)) ''prix'' of
        None \<Rightarrow> (s, c)
      | Some prix \<Rightarrow> alloc s (mask_rows (prix_mask prix) (mem s c)))"

definition drop_outliers :: "store \<Rightarrow> nat \<Rightarrow> store \<times> nat" where
  \<comment> \<open>Block 3 (lines 55-81). The numeric column is assigned to the working table in
      place; \<open>nums\<close> is that column as the following lines read it back.\<close>
  "drop_outliers s c =
     (case map_of (cols (mem s c)) ''prix'' of
        None \<Rightarrow> (s, c)
      | Some prix \<Rightarrow>
          if length (index (mem s c)) > 0 then
            let nums = map price_of prix;
                s1 = assign s c (set_prix_num nums (mem s c));
                prix_valides = dropna nums;
                (s2, c2) =
                  (if length prix_valides > 0 then
                     let prix_moyen = mean prix_valides;
                         seuil = prix_moyen / 2
                     in alloc s1 (mask_rows (seuil_mask seuil nums) (mem s1 c))
                   else (s1, c))
            in alloc s2 (drop_prix_num (mem s2 c2))
          else (s, c))"

definition suffix_duplicates :: "store \<Rightarrow> nat \<Rightarrow> store \<times> nat" where
  \<comment> \<open>Block 4 (lines 84-96): the new names are assigned to the working table in place.\<close>
  "suffix_duplicates s c =
     (case map_of (cols (mem s c)) ''nom'' of
        None \<Rightarrow> (s, c)
      | Some noms \<Rightarrow> (assign s c (set_col ''nom'' (new_noms Map.empty noms) (mem s c)), c))"

definition keep_columns :: "store \<Rightarrow> nat \<Rightarrow> store \<times> nat" where
  \<comment> \<open>Block 5 (lines 103-107).\<close>
  "keep_columns s c =
     (let (s1, c1) = alloc s (select_cols columns_to_keep (mem s c))
      in alloc s1 (reset_index (mem s1 c1)))"

definition clean_beautifulsoup_data :: "store \<Rightarrow> nat \<Rightarrow> store \<times> nat" where
  "clean_beautifulsoup_data s df =
     (if df_empty (mem s df) then (s, df)
      else
        let (s0, c0) = alloc s (mem s df);
            (s1, c1) = drop_missing_names s0 c0;
            (s2, c2) = drop_on_request s1 c1;
            (s3, c3) = drop_outliers s2 c2;
            (s4, c4) = suffix_duplicates s3 c3
        in keep_columns s4 c4)"

definition returned :: "store \<times> nat \<Rightarrow> dataframe" where
  \<comment> \<open>The table a call hands back: the object at the returned reference.\<close>
  "returned r = mem (fst r) (snd r)"

section \<open>The cleaner as a function of the table it is given\<close>

text \<open>
  The table the working variable \<open>df_clean\<close> refers to after each block, as a function of
  the table it referred to before; \<open>cleaned\<close> is the table a call returns. The lemmas
  \<open>returned_drop_missing_names\<close> to \<open>returned_clean\<close> below prove that the cleaner on the
  store computes exactly these.
\<close>

definition after_names :: "dataframe \<Rightarrow> dataframe" where
  "after_names df =
     (case map_of (cols df) ''nom'' of
        None \<Rightarrow> df
      | Some noms \<Rightarrow> mask_rows (nom_mask noms) df)"

definition after_keywords :: "dataframe \<Rightarrow> dataframe" where
  "after_keywords df =
     (case map_of (cols df) ''prix'' of
        None \<Rightarrow> df
      | Some prix \<Rightarrow> mask_rows (prix_mask prix) df)"

definition after_outliers :: "dataframe \<Rightarrow> dataframe" where
  "after_outliers df =
     (case map_of (cols df) ''prix'' of
        None \<Rightarrow> df
      | Some prix \<Rightarrow>
          if length (index df) > 0 then
            let nums = map price_of prix;
                prix_valides = dropna nums
            in drop_prix_num
                 (if length prix_valides > 0
                  then mask_rows (seuil_mask (mean prix_valides / 2) nums) (set_prix_num nums df)
                  else set_prix_num nums df)
          else df)"

definition after_suffixes :: "dataframe \<Rightarrow> dataframe" where
  "after_suffixes df =
     (case map_of (cols df) ''nom'' of
        None \<Rightarrow> df
      | Some noms \<Rightarrow> set_col ''nom'' (new_noms Map.empty noms) df)"

definition after_projection :: "dataframe \<Rightarrow> dataframe" where
  "after_projection df = reset_index (select_cols columns_to_keep df)"

definition filtered :: "dataframe \<Rightarrow> dataframe" where
  \<comment> \<open>The working table after the three filters (blocks 1 to 3).\<close>
  "filtered df = after_outliers (after_keywords (after_names df))"

definition cleaned :: "dataframe \<Rightarrow> dataframe" where
  "cleaned df =
     (if df_empty df then df else after_projection (after_suffixes (filtered df)))"

section \<open>Rows\<close>

text \<open>
  The claims speak of rows. The row at position \<open>i\<close> of a table is its label and its
  text cells by column name; \<open>wf_df\<close> says that every column is as long as the index and
  that no two text columns share a name.
\<close>

type_synonym row = "int \<times> (string \<times> string option) list"

definition row_at :: "dataframe \<Rightarrow> nat \<Rightarrow> row" where
  "row_at df i = (index df ! i, map (\<lambda>(name, xs). (name, xs ! i)) (cols df))"

definition rows :: "dataframe \<Rightarrow> row list" where
  "rows df = map (row_at df) [0..<length (index df)]"

definition cell :: "row \<Rightarrow> string \<Rightarrow> string option" where
  \<comment> \<open>The cell of a row in a column; missing when the table has no such column.\<close>
  "cell r name = (case map_of (snd r) name of None \<Rightarrow> None | Some v \<Rightarrow> v)"

definition wf_df :: "dataframe \<Rightarrow> bool" where
  "wf_df df =
     (list_all (\<lambda>p. length (snd p) = length (index df)) (cols df)
      \<and> (case prix_num df of None \<Rightarrow> True | Some v \<Rightarrow> length v = length (index df))
      \<and> distinct (map fst (cols df)))"

section \<open>The scraper\<close>

text \<open>
  The network and the HTML parser are the environment. A \<open>web\<close> answers a request for a
  URL, given the events so far; the answer is no response at all (\<open>requests.get\<close> raises
  a \<open>RequestException\<close>) or a status code and a parsed page. A page and a container
  answer the lookups the scraper makes; each lookup returns a tag, returns \<open>None\<close>, or
  raises. The events of a run are its requests and its sleeps, in order.
\<close>

datatype exn =
  RequestException string
| PyException string
| ValueError string
| KeyError string

datatype event = Get string | Sleep

record tag =
  attrs :: "(string \<times> string) list"
  text_of :: string

record container =
  find_a :: "exn + tag option"
  find_img :: "exn + tag option"

record page =
  find_all_containers :: "exn + container list"
  find_nom :: "exn + tag option"
  find_prix :: "exn + tag option"
  find_address :: "exn + tag option"

datatype response = NoResponse string | Response nat page

type_synonym web = "event list \<Rightarrow> string \<Rightarrow> response"

record item =
  nom :: string
  prix :: "string option"
  adresse :: "string option"
  image_lien :: "string option"

definition CATEGORIES :: "(string \<times> string) list" where
  "CATEGORIES =
     [(''chiens'', ''https://sn.coinafrique.com/categorie/chiens''),
      (''moutons'', ''https://sn.coinafrique.com/categorie/moutons''),
      (''poules-lapins-et-pigeons'',
         ''https://sn.coinafrique.com/categorie/poules-lapins-et-pigeons''),
      (''autres-animaux'', ''https://sn.coinafrique.com/categorie/autres-animaux'')]"

definition exn_str :: "exn \<Rightarrow> string" where
  \<comment> \<open>\<open>str(e)\<close>\<close>
  "exn_str e =
     (case e of RequestException m \<Rightarrow> m | PyException m \<Rightarrow> m
      | ValueError m \<Rightarrow> m | KeyError m \<Rightarrow> m)"

definition raise_for_status :: "nat \<Rightarrow> exn + unit" where
  \<comment> \<open>An \<open>HTTPError\<close> is a \<open>RequestException\<close>; of its message only the status code
      is kept.\<close>
  "raise_for_status status =
     (if 400 \<le> status \<and> status < 600
      then Inl (RequestException (str_of_nat status)) else Inr ())"

definition get_attr :: "tag \<Rightarrow> string \<Rightarrow> exn + string" where
  \<comment> \<open>\<open>tag[name]\<close>: a missing attribute raises \<open>KeyError\<close>.\<close>
  "get_attr t name =
     (case map_of (attrs t) name of None \<Rightarrow> Inl (KeyError name) | Some v \<Rightarrow> Inr v)"

definition scrape_detail ::
  "web \<Rightarrow> event list \<Rightarrow> string \<Rightarrow> string option \<Rightarrow> (exn + item option) \<times> event list" where
  \<comment> \<open>The body of the inner \<open>try\<close> (lines 110-141): the request of the detail page and
      the three lookups, in the source's order; the first exception ends it.\<close>
  "scrape_detail w evs url_container img =
     (let evs1 = evs @ [Get url_container] in
      case w evs url_container of
        NoResponse m \<Rightarrow> (Inl (RequestException m), evs1)
      | Response status soup_container \<Rightarrow>
          (case raise_for_status status of
             Inl e \<Rightarrow> (Inl e, evs1)
           | Inr u \<Rightarrow>
               (case find_nom soup_container of
                  Inl e \<Rightarrow> (Inl e, evs1)
                | Inr nom_tag \<Rightarrow>
                    (case find_prix soup_container of
                       Inl e \<Rightarrow> (Inl e, evs1)
                     | Inr prix_tag \<Rightarrow>
                         (case find_address soup_container of
                            Inl e \<Rightarrow> (Inl e, evs1)
                          | Inr address_span \<Rightarrow>
                              (case (case address_span of
                                       None \<Rightarrow> Inr None
                                     | Some t \<Rightarrow> map_sum id Some (get_attr t ''data-address'')) of
                                 Inl e \<Rightarrow> (Inl e, evs1)
                               | Inr adresse_text \<Rightarrow>
                                   (let nom_text = map_option (\<lambda>t. str_strip (text_of t)) nom_tag;
                                        prix_text = map_option (\<lambda>t. str_strip (text_of t)) prix_tag
                                    in case nom_text of
                                         None \<Rightarrow> (Inr None, evs1)
                                       | Some n \<Rightarrow>
                                           if n = [] then (Inr None, evs1)
                                           else (Inr (Some \<lparr>nom = n, prix = prix_text,
                                                   adresse = adresse_text, image_lien = img\<rparr>),
                                                 evs1))))))))"

definition container_try ::
  "web \<Rightarrow> event list \<Rightarrow> container \<Rightarrow> (exn + item option) \<times> event list" where
  \<comment> \<open>The body of one turn of the loop over the containers (lines 92-141), with the
      exception that ends it, if one is raised (in the outer or in the inner \<open>try\<close>);
      \<open>Inr None\<close> is a turn that ends with no item and no exception (\<open>continue\<close>, or a
      page with no name).\<close>
  "container_try w evs c =
     (case find_a c of
        Inl e \<Rightarrow> (Inl e, evs)
      | Inr link_tag \<Rightarrow>
          (case link_tag of
             None \<Rightarrow> (Inr None, evs)
           | Some a \<Rightarrow>
               (case map_of (attrs a) ''href'' of
                  None \<Rightarrow> (Inr None, evs)
                | Some href \<Rightarrow>
                    (let url_container = ''https://sn.coinafrique.com'' @ href in
                     case find_img c of
                       Inl e \<Rightarrow> (Inl e, evs)
                     | Inr img_tag \<Rightarrow>
                         (let img = (case img_tag of None \<Rightarrow> None
                                     | Some i \<Rightarrow> map_of (attrs i) ''src'');
                              evs1 = evs @ [Sleep]
                          in scrape_detail w evs1 url_container img)))))"

definition scrape_container :: "web \<Rightarrow> event list \<Rightarrow> container \<Rightarrow> item option \<times> event list" where
  \<comment> \<open>One turn of the loop with its handlers (lines 143-149): both are
      \<open>except Exception: pass\<close>, so a turn that raised appends nothing.\<close>
  "scrape_container w evs c =
     (case container_try w evs c of
        (Inl e, evs1) \<Rightarrow> (None, evs1)
      | (Inr it, evs1) \<Rightarrow> (it, evs1))"

fun scrape_containers ::
  "web \<Rightarrow> event list \<Rightarrow> item list \<Rightarrow> container list \<Rightarrow> item list \<times> event list" where
  \<comment> \<open>The loop over the containers; the third argument is the list \<open>data\<close>.\<close>
  "scrape_containers w evs data [] = (data, evs)"
| "scrape_containers w evs data (c # cs) =
     (case scrape_container w evs c of
        (None, evs1) \<Rightarrow> scrape_containers w evs1 data cs
      | (Some it, evs1) \<Rightarrow> scrape_containers w evs1 (data @ [it]) cs)"

definition reraise :: "exn \<Rightarrow> exn" where
  \<comment> \<open>The two handlers of \<open>scrape_page\<close> (lines 154-159).\<close>
  "reraise e =
     (case e of
        RequestException m \<Rightarrow>
          PyException (''Erreur lors de la requ'' @ [CHR 0xEA] @ ''te HTTP: '' @ m)
      | other \<Rightarrow> PyException (''Erreur lors du scraping: '' @ exn_str other))"

definition scrape_page :: "web \<Rightarrow> event list \<Rightarrow> string \<Rightarrow> (exn + item list) \<times> event list" where
  "scrape_page w evs url =
     (let evs1 = evs @ [Get url] in
      case w evs url of
        NoResponse m \<Rightarrow> (Inl (reraise (RequestException m)), evs1)
      | Response status soup \<Rightarrow>
          (case raise_for_status status of
             Inl e \<Rightarrow> (Inl (reraise e), evs1)
           | Inr u \<Rightarrow>
               (case find_all_containers soup of
                  Inl e \<Rightarrow> (Inl (reraise e), evs1)
                | Inr containers \<Rightarrow>
                    if containers = [] then (Inr [], evs1)
                    else (case scrape_containers w evs1 [] containers of
                            (data, evs2) \<Rightarrow> (Inr data, evs2)))))"

fun scrape_pages ::
  "web \<Rightarrow> event list \<Rightarrow> string \<Rightarrow> int \<Rightarrow> item list \<Rightarrow> int list
     \<Rightarrow> (exn + item list) \<times> event list" where
  \<comment> \<open>The loop over the page numbers (lines 185-202); an exception of \<open>scrape_page\<close>
      ends it.\<close>
  "scrape_pages w evs base_url num_pages all_data [] = (Inr all_data, evs)"
| "scrape_pages w evs base_url num_pages all_data (page_num # rest) =
     (let url = (if page_num = 1 then base_url
                 else base_url @ ''?page='' @ str_of_nat (nat page_num))
      in case scrape_page w evs url of
           (Inl e, evs1) \<Rightarrow> (Inl e, evs1)
         | (Inr page_data, evs1) \<Rightarrow>
             scrape_pages w (if page_num < num_pages then evs1 @ [Sleep] else evs1)
               base_url num_pages (all_data @ page_data) rest)"

definition DataFrame :: "item list \<Rightarrow> dataframe" where
  \<comment> \<open>\<open>pd.DataFrame(all_data)\<close> for a list of dictionaries with the four keys: no
      column at all when the list is empty.\<close>
  "DataFrame all_data =
     (if all_data = [] then \<lparr>index = [], cols = [], prix_num = None\<rparr>
      else \<lparr>index = map int [0..<length all_data],
            cols = [(''nom'', map (\<lambda>i. Some (nom i)) all_data),
                    (''prix'', map prix all_data),
                    (''adresse'', map adresse all_data),
                    (''image_lien'', map image_lien all_data)],
            prix_num = None\<rparr>)"

definition quoted :: "string \<Rightarrow> string" where
  "quoted t = [CHR 0x27] @ t @ [CHR 0x27]"

fun join_comma :: "string list \<Rightarrow> string" where
  "join_comma [] = []"
| "join_comma [t] = t"
| "join_comma (t # ts) = t @ '', '' @ join_comma ts"

definition invalid_category :: "string \<Rightarrow> exn" where
  \<comment> \<open>The \<open>ValueError\<close> of line 175.\<close>
  "invalid_category category =
     ValueError (''Cat'' @ [CHR 0xE9] @ ''gorie '' @ quoted category
       @ '' non valide. Choisir parmi: ['' @ join_comma (map (quoted \<circ> fst) CATEGORIES) @ '']'')"

definition new_store :: store where
  \<comment> \<open>A store with no table yet.\<close>
  "new_store = \<lparr>mem = (\<lambda>a. \<lparr>index = [], cols = [], prix_num = None\<rparr>), fresh = 0\<rparr>"

definition scrape_category ::
  "web \<Rightarrow> event list \<Rightarrow> string \<Rightarrow> int \<Rightarrow> (exn + dataframe) \<times> event list" where
  "scrape_category w evs category num_pages =
     (case map_of CATEGORIES category of
        None \<Rightarrow> (Inl (invalid_category category), evs)
      | Some base_url \<Rightarrow>
          (case scrape_pages w evs base_url num_pages [] [1..num_pages] of
             (Inl e, evs1) \<Rightarrow> (Inl e, evs1)
           | (Inr all_data, evs1) \<Rightarrow>
               (case alloc new_store (DataFrame all_data) of
                  (s, df) \<Rightarrow> (Inr (returned (clean_beautifulsoup_data s df)), evs1))))"

section \<open>The outlier rule in the words of the specification\<close>

definition parsed_prices :: "dataframe \<Rightarrow> real list" where
  \<comment> \<open>The prices of the rows of a table whose price text parses, in row order.\<close>
  "parsed_prices t = dropna (map (\<lambda>r. price_of (cell r ''prix'')) (rows t))"

definition outlier :: "dataframe \<Rightarrow> row \<Rightarrow> bool" where
  \<comment> \<open>The row has a parsed price strictly below half the mean of the parsed prices of
      the table.\<close>
  "outlier t r =
     (case price_of (cell r ''prix'') of
        None \<Rightarrow> False
      | Some x \<Rightarrow> parsed_prices t \<noteq> [] \<and> x < mean (parsed_prices t) / 2)"

section \<open>Clean tables, in the words of the specification\<close>






section \<open>The outcome of each container of a batch\<close>

fun container_results :: "web \<Rightarrow> event list \<Rightarrow> container list \<Rightarrow> item option list" where
  \<comment> \<open>What each container of a batch yields when the batch is processed in order from
      the events \<open>evs\<close>: its item, or \<open>None\<close> when the container is skipped.\<close>
  "container_results w evs [] = []"
| "container_results w evs (c # cs) =
     fst (scrape_container w evs c)
       # container_results w (snd (scrape_container w evs c)) cs"

section \<open>Example inputs\<close>

definition dead_web :: web where
  \<comment> \<open>A site that answers no request.\<close>
  "dead_web evs url = NoResponse ''unreachable''"

definition raw_example :: dataframe where
  \<comment> \<open>Six scraped listings: the third has no name, the fourth has its price on request,
      the fifth a price far below the others, the sixth no price.\<close>
  "raw_example =
     \<lparr>index = [0, 1, 2, 3, 4, 5],
      cols = [(''nom'', [Some ''Berger'', Some ''Berger'', Some [], Some ''Chiot'',
                         Some ''Caniche'', Some ''Chat'']),
              (''prix'', [Some ''250 000 CFA'', Some ''300 000 CFA'', Some ''100 000 CFA'',
                          Some ''Prix sur demande'', Some ''1 000 CFA'', None]),
              (''adresse'', [Some ''Dakar'', None, Some ''Thies'', Some ''Dakar'',
                             Some ''Dakar'', Some ''Pikine'']),
              (''image_lien'', [None, None, None, None, None, None])],
      prix_num = None\<rparr>"

definition example_store :: store where
  "example_store = fst (alloc new_store raw_example)"

definition ad_card :: "string \<Rightarrow> container" where
  \<comment> \<open>A container with a link to a detail page and no image.\<close>
  "ad_card href = \<lparr>find_a = Inr (Some \<lparr>attrs = [(''href'', href)], text_of = []\<rparr>),
               find_img = Inr None\<rparr>"

definition listing_page :: page where
  "listing_page =
     \<lparr>find_all_containers = Inr [ad_card ''/a1'', ad_card ''/a2'', ad_card ''/a3'', ad_card ''/a4''],
      find_nom = Inr None, find_prix = Inr None, find_address = Inr None\<rparr>"

definition detail_page :: "string \<Rightarrow> exn + tag option \<Rightarrow> page" where
  \<comment> \<open>A detail page with a title, a given answer to the price lookup and an address.\<close>
  "detail_page title price =
     \<lparr>find_all_containers = Inr [],
      find_nom = Inr (Some \<lparr>attrs = [], text_of = title\<rparr>),
      find_prix = price,
      find_address = Inr (Some \<lparr>attrs = [(''data-address'', ''Dakar'')], text_of = []\<rparr>)\<rparr>"

definition shop_web :: web where
  \<comment> \<open>A site of four listings: the detail page of the second cannot be fetched, and the
      price lookup raises on the third.\<close>
  "shop_web evs url =
     (if url = ''https://sn.coinafrique.com/categorie/chiens'' then Response 200 listing_page
      else if url = ''https://sn.coinafrique.com/a1''
        then Response 200 (detail_page '' Chien '' (Inr (Some \<lparr>attrs = [], text_of = ''25 000 CFA''\<rparr>)))
      else if url = ''https://sn.coinafrique.com/a2'' then NoResponse ''timeout''
      else if url = ''https://sn.coinafrique.com/a3''
        then Response 200 (detail_page ''Chat'' (Inl (PyException ''malformed'')))
      else if url = ''https://sn.coinafrique.com/a4''
        then Response 200 (detail_page ''Mouton'' (Inr None))
      else Response 404 listing_page)"


definition colliding_names :: dataframe where
  \<comment> \<open>Three scraped listings: the same name twice, and a third listing whose own name is
      that name followed by a number.\<close>
  "colliding_names =
     \<lparr>index = [0, 1, 2],
      cols = [(''nom'', [Some ''Chien'', Some ''Chien'', Some ''Chien 1'']),
              (''prix'', [Some ''50 000 CFA'', Some ''60 000 CFA'', None]),
              (''adresse'', [Some ''Dakar'', Some ''Dakar'', None]),
              (''image_lien'', [None, None, None])],
      prix_num = None\<rparr>"


section \<open>The store computes the functions above\<close>

lemma returned_alloc: "returned (alloc s d) = d"
  by (simp add: returned_def alloc_def)

lemma returned_drop_missing_names:
  "returned (drop_missing_names s c) = after_names (mem s c)"
  by (simp add: drop_missing_names_def after_names_def returned_alloc split: option.split)
    (simp add: returned_def)

lemma returned_drop_on_request:
  "returned (drop_on_request s c) = after_keywords (mem s c)"
  by (simp add: drop_on_request_def after_keywords_def returned_alloc split: option.split)
    (simp add: returned_def)

lemma returned_drop_outliers:
  "returned (drop_outliers s c) = after_outliers (mem s c)"
proof (cases "map_of (cols (mem s c)) ''prix''")
  case None
  then show ?thesis
    by (simp add: drop_outliers_def after_outliers_def returned_def)
next
  case (Some ps)
  show ?thesis
  proof (cases "index (mem s c) = []")
    case True
    with Some show ?thesis
      by (simp add: drop_outliers_def after_outliers_def returned_def)
  next
    case False
    with Some show ?thesis
      by (simp add: drop_outliers_def after_outliers_def Let_def alloc_def assign_def
          returned_def)
  qed
qed

lemma returned_suffix_duplicates:
  "returned (suffix_duplicates s c) = after_suffixes (mem s c)"
  by (simp add: suffix_duplicates_def after_suffixes_def returned_def assign_def
      split: option.split)

lemma returned_keep_columns:
  "returned (keep_columns s c) = after_projection (mem s c)"
  by (simp add: keep_columns_def after_projection_def returned_alloc Let_def split_def)
    (simp add: alloc_def)

lemma returned_clean:
  "returned (clean_beautifulsoup_data s df) = cleaned (mem s df)"
proof (cases "df_empty (mem s df)")
  case True
  then show ?thesis
    by (simp add: clean_beautifulsoup_data_def cleaned_def returned_def)
next
  case False
  obtain s0 c0 where a0: "alloc s (mem s df) = (s0, c0)" by (cases "alloc s (mem s df)")
  obtain s1 c1 where a1: "drop_missing_names s0 c0 = (s1, c1)"
    by (cases "drop_missing_names s0 c0")
  obtain s2 c2 where a2: "drop_on_request s1 c1 = (s2, c2)"
    by (cases "drop_on_request s1 c1")
  obtain s3 c3 where a3: "drop_outliers s2 c2 = (s3, c3)"
    by (cases "drop_outliers s2 c2")
  obtain s4 c4 where a4: "suffix_duplicates s3 c3 = (s4, c4)"
    by (cases "suffix_duplicates s3 c3")
  have v0: "mem s0 c0 = mem s df"
    using returned_alloc [of s "mem s df"] a0 by (simp add: returned_def)
  have v1: "mem s1 c1 = after_names (mem s0 c0)"
    using returned_drop_missing_names [of s0 c0] a1 by (simp add: returned_def)
  have v2: "mem s2 c2 = after_keywords (mem s1 c1)"
    using returned_drop_on_request [of s1 c1] a2 by (simp add: returned_def)
  have v3: "mem s3 c3 = after_outliers (mem s2 c2)"
    using returned_drop_outliers [of s2 c2] a3 by (simp add: returned_def)
  have v4: "mem s4 c4 = after_suffixes (mem s3 c3)"
    using returned_suffix_duplicates [of s3 c3] a4 by (simp add: returned_def)
  have "clean_beautifulsoup_data s df = keep_columns s4 c4"
    using False a0 a1 a2 a3 a4 by (simp add: clean_beautifulsoup_data_def)
  then show ?thesis
    using False v0 v1 v2 v3 v4
    by (simp add: returned_keep_columns cleaned_def filtered_def)
qed

section \<open>The cleaner works on a copy\<close>

lemma alloc_frame:
  assumes "alloc s d = (s', c')" and "n \<le> fresh s"
  shows "n \<le> c' \<and> n \<le> fresh s' \<and> (\<forall>b<n. mem s' b = mem s b)"
  using assms by (auto simp: alloc_def)

lemma assign_frame:
  assumes "n \<le> c" and "n \<le> fresh s"
  shows "n \<le> fresh (assign s c d) \<and> (\<forall>b<n. mem (assign s c d) b = mem s b)"
  using assms by (auto simp: assign_def)

lemma drop_missing_names_frame:
  assumes "drop_missing_names s c = (s', c')" and "n \<le> c" and "n \<le> fresh s"
  shows "n \<le> c' \<and> n \<le> fresh s' \<and> (\<forall>b<n. mem s' b = mem s b)"
  using assms by (auto simp: drop_missing_names_def alloc_def split: option.splits)

lemma drop_on_request_frame:
  assumes "drop_on_request s c = (s', c')" and "n \<le> c" and "n \<le> fresh s"
  shows "n \<le> c' \<and> n \<le> fresh s' \<and> (\<forall>b<n. mem s' b = mem s b)"
  using assms by (auto simp: drop_on_request_def alloc_def split: option.splits)

lemma drop_outliers_frame:
  assumes "drop_outliers s c = (s', c')" and "n \<le> c" and "n \<le> fresh s"
  shows "n \<le> c' \<and> n \<le> fresh s' \<and> (\<forall>b<n. mem s' b = mem s b)"
  using assms
  by (auto simp: drop_outliers_def alloc_def assign_def Let_def split: option.splits if_splits)

lemma suffix_duplicates_frame:
  assumes "suffix_duplicates s c = (s', c')" and "n \<le> c" and "n \<le> fresh s"
  shows "n \<le> c' \<and> n \<le> fresh s' \<and> (\<forall>b<n. mem s' b = mem s b)"
  using assms by (auto simp: suffix_duplicates_def assign_def split: option.splits)

lemma keep_columns_frame:
  assumes "keep_columns s c = (s', c')" and "n \<le> fresh s"
  shows "n \<le> c' \<and> n \<le> fresh s' \<and> (\<forall>b<n. mem s' b = mem s b)"
  using assms by (auto simp: keep_columns_def alloc_def Let_def)

lemma clean_frame:
  assumes "clean_beautifulsoup_data s df = (s', r)" and "b < fresh s"
  shows "mem s' b = mem s b"
proof (cases "df_empty (mem s df)")
  case True
  with assms show ?thesis by (simp add: clean_beautifulsoup_data_def)
next
  case False
  let ?n = "fresh s"
  obtain s0 c0 where a0: "alloc s (mem s df) = (s0, c0)" by (cases "alloc s (mem s df)")
  obtain s1 c1 where a1: "drop_missing_names s0 c0 = (s1, c1)"
    by (cases "drop_missing_names s0 c0")
  obtain s2 c2 where a2: "drop_on_request s1 c1 = (s2, c2)"
    by (cases "drop_on_request s1 c1")
  obtain s3 c3 where a3: "drop_outliers s2 c2 = (s3, c3)"
    by (cases "drop_outliers s2 c2")
  obtain s4 c4 where a4: "suffix_duplicates s3 c3 = (s4, c4)"
    by (cases "suffix_duplicates s3 c3")
  have f0: "?n \<le> c0 \<and> ?n \<le> fresh s0 \<and> (\<forall>b<?n. mem s0 b = mem s b)"
    using alloc_frame [OF a0, of ?n] by simp
  have f1: "?n \<le> c1 \<and> ?n \<le> fresh s1 \<and> (\<forall>b<?n. mem s1 b = mem s0 b)"
    using drop_missing_names_frame [OF a1, of ?n] f0 by simp
  have f2: "?n \<le> c2 \<and> ?n \<le> fresh s2 \<and> (\<forall>b<?n. mem s2 b = mem s1 b)"
    using drop_on_request_frame [OF a2, of ?n] f1 by simp
  have f3: "?n \<le> c3 \<and> ?n \<le> fresh s3 \<and> (\<forall>b<?n. mem s3 b = mem s2 b)"
    using drop_outliers_frame [OF a3, of ?n] f2 by simp
  have f4: "?n \<le> c4 \<and> ?n \<le> fresh s4 \<and> (\<forall>b<?n. mem s4 b = mem s3 b)"
    using suffix_duplicates_frame [OF a4, of ?n] f3 by simp
  have "keep_columns s4 c4 = (s', r)"
    using assms(1) False a0 a1 a2 a3 a4 by (simp add: clean_beautifulsoup_data_def)
  then have f5: "\<forall>b<?n. mem s' b = mem s4 b"
    using keep_columns_frame [of s4 c4 s' r ?n] f4 by simp
  show ?thesis
    using assms(2) f0 f1 f2 f3 f4 f5 by simp
qed

text \<open>
  C10. A call of the cleaner changes no table that was in the store before the call: the
  caller's table, at the reference passed in, holds after the call exactly what it held
  before, and so does every other table. The numeric column and the new names are
  assigned in place, but to tables the call itself has built.
\<close>

theorem clean_never_mutates_argument:
  "df < fresh s \<Longrightarrow>
     mem (fst (clean_beautifulsoup_data s df)) df = mem s df
     \<and> (\<forall>b<fresh s. mem (fst (clean_beautifulsoup_data s df)) b = mem s b)"
  using clean_frame [of s df "fst (clean_beautifulsoup_data s df)"
      "snd (clean_beautifulsoup_data s df)"]
  by simp

theorem clean_never_mutates_argument_witness:
  "(0::nat) < fresh example_store
   \<and> mem (fst (clean_beautifulsoup_data example_store 0)) 0 = mem example_store 0
   \<and> mem example_store 0 = raw_example"
  using clean_never_mutates_argument [of 0 example_store]
  by (simp add: example_store_def alloc_def new_store_def)

section \<open>The scraper skips what fails, and nothing else\<close>

lemma scrape_containers_results:
  "fst (scrape_containers w evs data cs) = data @ dropna (container_results w evs cs)"
proof (induction cs arbitrary: evs data)
  case Nil
  show ?case by simp
next
  case (Cons c cs)
  obtain it evs1 where r: "scrape_container w evs c = (it, evs1)"
    by (cases "scrape_container w evs c")
  show ?case
  proof (cases it)
    case None
    with r Cons [of evs1 data] show ?thesis by simp
  next
    case (Some i)
    with r Cons [of evs1 "data @ [i]"] show ?thesis by simp
  qed
qed

text \<open>
  C4. When the listing page itself was fetched and its containers found, \<open>scrape_page\<close>
  raises nothing, whatever happens on the detail pages: it returns exactly the items of
  the containers that yield one, in the order of the containers. A container whose turn
  raises (a lookup of the container, the request of its detail page, the status check or
  a lookup on the detail page) yields no item, and the turn after it starts from the
  events it left, with the items gathered so far. In particular a detail page that cannot
  be fetched, or comes back with an error status, costs one sleep and one request and
  yields nothing.
\<close>

theorem item_failure_skips_only_that_item:
  assumes "w evs url = Response status soup"
    and "raise_for_status status = Inr ()"
    and "find_all_containers soup = Inr containers"
  shows "fst (scrape_page w evs url)
           = Inr (dropna (container_results w (evs @ [Get url]) containers))
         \<and> (\<forall>c e. isl (fst (container_try w e c)) \<longrightarrow>
               scrape_container w e c = (None, snd (container_try w e c)))
         \<and> (\<forall>c cs e data. fst (scrape_container w e c) = None \<longrightarrow>
               scrape_containers w e data (c # cs)
                 = scrape_containers w (snd (scrape_container w e c)) data cs)
         \<and> (\<forall>(c :: container) (a :: tag) href img_tag e.
               find_a c = Inr (Some a) \<and> map_of (attrs a) ''href'' = Some href
               \<and> find_img c = Inr img_tag
               \<and> (case w (e @ [Sleep]) (''https://sn.coinafrique.com'' @ href) of
                     NoResponse m \<Rightarrow> True
                   | Response st pg \<Rightarrow> 400 \<le> st \<and> st < 600) \<longrightarrow>
               scrape_container w e c
                 = (None, e @ [Sleep, Get (''https://sn.coinafrique.com'' @ href)]))"
proof (intro conjI allI impI)
  show "fst (scrape_page w evs url)
          = Inr (dropna (container_results w (evs @ [Get url]) containers))"
  proof (cases "containers = []")
    case True
    with assms show ?thesis by (simp add: scrape_page_def)
  next
    case False
    obtain data evs2 where r: "scrape_containers w (evs @ [Get url]) [] containers = (data, evs2)"
      by (cases "scrape_containers w (evs @ [Get url]) [] containers")
    have "data = dropna (container_results w (evs @ [Get url]) containers)"
      using scrape_containers_results [of w "evs @ [Get url]" "[]" containers] r by simp
    with assms False r show ?thesis by (simp add: scrape_page_def)
  qed
next
  fix c e
  assume "isl (fst (container_try w e c))"
  then show "scrape_container w e c = (None, snd (container_try w e c))"
    by (cases "container_try w e c") (auto simp: scrape_container_def isl_def)
next
  fix c cs e data
  assume "fst (scrape_container w e c) = None"
  then show "scrape_containers w e data (c # cs)
               = scrape_containers w (snd (scrape_container w e c)) data cs"
    by (cases "scrape_container w e c") simp
next
  fix c :: container and a :: tag and href img_tag e
  assume "find_a c = Inr (Some a) \<and> map_of (attrs a) ''href'' = Some href
          \<and> find_img c = Inr img_tag
          \<and> (case w (e @ [Sleep]) (''https://sn.coinafrique.com'' @ href) of
                NoResponse m \<Rightarrow> True
              | Response st pg \<Rightarrow> 400 \<le> st \<and> st < 600)"
  then show "scrape_container w e c
               = (None, e @ [Sleep, Get (''https://sn.coinafrique.com'' @ href)])"
    by (auto simp: scrape_container_def container_try_def scrape_detail_def
        raise_for_status_def Let_def split: response.splits)
qed

theorem item_failure_skips_only_that_item_witness:
  "shop_web [] ''https://sn.coinafrique.com/categorie/chiens'' = Response 200 listing_page
   \<and> raise_for_status 200 = Inr ()
   \<and> find_all_containers listing_page
        = Inr [ad_card ''/a1'', ad_card ''/a2'', ad_card ''/a3'', ad_card ''/a4'']
   \<and> fst (scrape_page shop_web [] ''https://sn.coinafrique.com/categorie/chiens'')
        = Inr [\<lparr>nom = ''Chien'', prix = Some ''25 000 CFA'', adresse = Some ''Dakar'',
                 image_lien = None\<rparr>,
               \<lparr>nom = ''Mouton'', prix = None, adresse = Some ''Dakar'', image_lien = None\<rparr>]"
proof -
  have h1: "shop_web [] ''https://sn.coinafrique.com/categorie/chiens'' = Response 200 listing_page"
    by (simp add: shop_web_def)
  have h2: "raise_for_status 200 = Inr ()"
    by (simp add: raise_for_status_def)
  have h3: "find_all_containers listing_page
              = Inr [ad_card ''/a1'', ad_card ''/a2'', ad_card ''/a3'', ad_card ''/a4'']"
    by (simp add: listing_page_def)
  have ev: "dropna (container_results shop_web
               ([] @ [Get ''https://sn.coinafrique.com/categorie/chiens''])
               [ad_card ''/a1'', ad_card ''/a2'', ad_card ''/a3'', ad_card ''/a4''])
        = [\<lparr>nom = ''Chien'', prix = Some ''25 000 CFA'', adresse = Some ''Dakar'',
                 image_lien = None\<rparr>,
               \<lparr>nom = ''Mouton'', prix = None, adresse = Some ''Dakar'', image_lien = None\<rparr>]"
    by code_simp
  show ?thesis
    using item_failure_skips_only_that_item [of shop_web "[]"
        "''https://sn.coinafrique.com/categorie/chiens''" 200 listing_page
        "[ad_card ''/a1'', ad_card ''/a2'', ad_card ''/a3'', ad_card ''/a4'']"] h1 h2 h3 ev
    by simp
qed

text \<open>
  C3, as the claim states it, fails: on the third listing of the example site the name
  and the address lookups answer and the price lookup raises, and the turn yields no item
  at all, so neither the name nor the address is extracted into the result.
\<close>

theorem one_failing_lookup_discards_the_item:
  "shop_web [Sleep] ''https://sn.coinafrique.com/a3''
     = Response 200 (detail_page ''Chat'' (Inl (PyException ''malformed'')))
   \<and> find_nom (detail_page ''Chat'' (Inl (PyException ''malformed'')))
       = Inr (Some \<lparr>attrs = [], text_of = ''Chat''\<rparr>)
   \<and> find_prix (detail_page ''Chat'' (Inl (PyException ''malformed'')))
       = Inl (PyException ''malformed'')
   \<and> find_address (detail_page ''Chat'' (Inl (PyException ''malformed'')))
       = Inr (Some \<lparr>attrs = [(''data-address'', ''Dakar'')], text_of = []\<rparr>)
   \<and> scrape_container shop_web [] (ad_card ''/a3'')
       = (None, [Sleep, Get ''https://sn.coinafrique.com/a3''])"
  by (simp add: shop_web_def detail_page_def ad_card_def scrape_container_def
      container_try_def scrape_detail_def raise_for_status_def)

text \<open>
  C3, amended. The three lookups of a detail page share one \<open>try\<close> block. For a
  container with a link, whose detail page is fetched with a good status: if any of the
  three lookups raises, the whole item is skipped (the turn yields nothing); if none
  raises, the turn yields the item with the trimmed name, the trimmed price text (or
  none), the address attribute (or none) and the image link, provided the name is there
  and not empty, and nothing otherwise.
\<close>

theorem failing_lookup_skips_whole_item:
  assumes "find_a c = Inr (Some a)"
    and "map_of (attrs a) ''href'' = Some href"
    and "find_img c = Inr img_tag"
    and "w (evs @ [Sleep]) (''https://sn.coinafrique.com'' @ href) = Response status pg"
    and "raise_for_status status = Inr ()"
  shows "((isl (find_nom pg) \<or> isl (find_prix pg) \<or> isl (find_address pg)) \<longrightarrow>
            fst (scrape_container w evs c) = None)
         \<and> (\<forall>nom_tag prix_tag address_span v.
               find_nom pg = Inr nom_tag \<and> find_prix pg = Inr prix_tag
               \<and> find_address pg = Inr address_span
               \<and> (case address_span of None \<Rightarrow> v = None
                   | Some t \<Rightarrow> v \<noteq> None \<and> map_of (attrs t) ''data-address'' = v) \<longrightarrow>
               fst (scrape_container w evs c)
                 = (case nom_tag of
                      None \<Rightarrow> None
                    | Some n \<Rightarrow>
                        if str_strip (text_of n) = [] then None
                        else Some \<lparr>nom = str_strip (text_of n),
                                   prix = map_option (\<lambda>t. str_strip (text_of t)) prix_tag,
                                   adresse = v,
                                   image_lien = (case img_tag of None \<Rightarrow> None
                                                 | Some i \<Rightarrow> map_of (attrs i) ''src'')\<rparr>))"
  using assms
  by (auto simp: scrape_container_def container_try_def scrape_detail_def Let_def
      get_attr_def isl_def split: sum.splits option.splits)

theorem failing_lookup_skips_whole_item_witness:
  "find_a (ad_card ''/a3'') = Inr (Some \<lparr>attrs = [(''href'', ''/a3'')], text_of = []\<rparr>)
   \<and> map_of (attrs \<lparr>attrs = [(''href'', ''/a3'')], text_of = []\<rparr>) ''href'' = Some ''/a3''
   \<and> find_img (ad_card ''/a3'') = Inr None
   \<and> shop_web ([] @ [Sleep]) (''https://sn.coinafrique.com'' @ ''/a3'')
        = Response 200 (detail_page ''Chat'' (Inl (PyException ''malformed'')))
   \<and> raise_for_status 200 = Inr ()
   \<and> isl (find_prix (detail_page ''Chat'' (Inl (PyException ''malformed''))))
   \<and> fst (scrape_container shop_web [] (ad_card ''/a3'')) = None"
proof -
  have h1: "find_a (ad_card ''/a3'') = Inr (Some \<lparr>attrs = [(''href'', ''/a3'')], text_of = []\<rparr>)"
    by (simp add: ad_card_def)
  have h2: "map_of (attrs \<lparr>attrs = [(''href'', ''/a3'')], text_of = []\<rparr>) ''href'' = Some ''/a3''"
    by simp
  have h3: "find_img (ad_card ''/a3'') = Inr None"
    by (simp add: ad_card_def)
  have h4: "shop_web ([] @ [Sleep]) (''https://sn.coinafrique.com'' @ ''/a3'')
        = Response 200 (detail_page ''Chat'' (Inl (PyException ''malformed'')))"
    by (simp add: shop_web_def)
  have h5: "raise_for_status 200 = Inr ()"
    by (simp add: raise_for_status_def)
  have h6: "isl (find_prix (detail_page ''Chat'' (Inl (PyException ''malformed''))))"
    by (simp add: detail_page_def)
  show ?thesis
    using failing_lookup_skips_whole_item [of "ad_card ''/a3''"
        "\<lparr>attrs = [(''href'', ''/a3'')], text_of = []\<rparr>" "''/a3''" None shop_web "[]" 200
        "detail_page ''Chat'' (Inl (PyException ''malformed''))"] h1 h2 h3 h4 h5 h6
    by (simp del: append.simps map_of.simps)
qed

text \<open>
  C8. For a category that is not one of the four known ones, whatever the number of
  pages, \<open>scrape_category\<close> raises the invalid-category error (a \<open>ValueError\<close>) and the
  events of the run are those before the call: no request was made.
\<close>

theorem scrape_category_invalid:
  "category \<notin> {''chiens'', ''moutons'', ''poules-lapins-et-pigeons'', ''autres-animaux''} \<Longrightarrow>
     scrape_category w evs category num_pages = (Inl (invalid_category category), evs)
     \<and> (\<exists>m. invalid_category category = ValueError m)"
  by (simp add: scrape_category_def CATEGORIES_def invalid_category_def)

theorem scrape_category_invalid_witness:
  "''invalid-slug'' \<notin> {''chiens'', ''moutons'', ''poules-lapins-et-pigeons'', ''autres-animaux''}
   \<and> scrape_category dead_web [] ''invalid-slug'' 1 = (Inl (invalid_category ''invalid-slug''), [])"
  using scrape_category_invalid [of "''invalid-slug''" dead_web "[]" 1] by simp

section \<open>Masks, columns and rows\<close>

lemma select_mask_map: "select_mask (map P xs) xs = filter P xs"
  by (induction xs) (simp_all add: select_mask_def)

lemma select_mask_nth:
  assumes "length m = length xs"
  shows "select_mask m xs = map ((!) xs) (filter ((!) m) [0..<length xs])"
proof -
  have "zip xs m = map (\<lambda>i. (xs ! i, m ! i)) [0..<length xs]"
    using assms by (intro nth_equalityI) simp_all
  then show ?thesis
    by (simp add: select_mask_def filter_map o_def)
qed





lemma wf_df_length:
  "wf_df df \<Longrightarrow> map_of (cols df) k = Some xs \<Longrightarrow> length xs = length (index df)"
  by (auto simp: wf_df_def list_all_iff dest: map_of_SomeD)

lemma length_select_mask:
  "length m = length xs \<Longrightarrow> length (select_mask m xs) = length (filter id m)"
  by (induction m xs rule: list_induct2) (simp_all add: select_mask_def)

lemma wf_mask_rows:
  assumes "wf_df df" and "length m = length (index df)"
  shows "wf_df (mask_rows m df)"
  using assms
  by (auto simp: wf_df_def mask_rows_def list_all_iff case_prod_beta o_def length_select_mask
      split: option.splits)

lemma rows_mask_rows:
  assumes "wf_df df" and "length m = length (index df)"
  shows "rows (mask_rows m df) = select_mask m (rows df)"
proof -
  let ?n = "length (index df)"
  let ?ks = "filter ((!) m) [0..<?n]"
  have ix: "index (mask_rows m df) = map ((!) (index df)) ?ks"
    using assms(2) by (simp add: mask_rows_def select_mask_nth)
  have cs: "cols (mask_rows m df) = map (\<lambda>(name, xs). (name, map ((!) xs) ?ks)) (cols df)"
    using assms by (auto simp: mask_rows_def wf_df_def list_all_iff select_mask_nth)
  have "row_at (mask_rows m df) j = row_at df (?ks ! j)" if "j < length ?ks" for j
    using that by (simp add: row_at_def ix cs case_prod_beta o_def)
  then have "rows (mask_rows m df) = map (\<lambda>j. row_at df (?ks ! j)) [0..<length ?ks]"
    by (simp add: rows_def ix)
  also have "\<dots> = map (row_at df) ?ks"
    by (intro nth_equalityI) simp_all
  also have "\<dots> = select_mask m (rows df)"
    using assms(2) by (simp add: select_mask_nth rows_def)
  finally show ?thesis .
qed

lemma cell_row_at:
  "cell (row_at df i) k = (case map_of (cols df) k of None \<Rightarrow> None | Some xs \<Rightarrow> xs ! i)"
  by (simp add: cell_def row_at_def map_of_map split: option.split)

lemma rows_filter:
  assumes "wf_df df" and "length m = length (index df)"
    and "\<And>i. i < length (index df) \<Longrightarrow> m ! i = P (row_at df i)"
  shows "rows (mask_rows m df) = filter P (rows df)"
proof -
  have "m = map P (rows df)"
    using assms(2,3) by (intro nth_equalityI) (simp_all add: rows_def)
  then show ?thesis
    using rows_mask_rows [OF assms(1,2)] by (simp add: select_mask_map)
qed

section \<open>The price filters, row by row\<close>

lemma null_price_not_on_request: "\<not> on_request (str_lower (astype_str None))"
  by code_simp

lemma null_price_unparsed: "price_of None = None"
  by code_simp

lemma map_of_filter_other:
  "k \<noteq> k' \<Longrightarrow> map_of (filter (\<lambda>p. fst p \<noteq> k') xs) k = map_of xs k"
  by (induction xs) auto

lemma wf_drop_prix_num: "wf_df t \<Longrightarrow> wf_df (drop_prix_num t)"
  by (auto simp: wf_df_def drop_prix_num_def list_all_iff distinct_map_filter)

lemma prix_drop_prix_num:
  "map_of (cols (drop_prix_num t)) ''prix'' = map_of (cols t) ''prix''"
  by (simp add: drop_prix_num_def map_of_filter_other)

lemma after_keywords_rows:
  assumes "wf_df t"
  shows "rows (after_keywords t)
           = filter (\<lambda>r. \<not> on_request (str_lower (astype_str (cell r ''prix'')))) (rows t)"
proof (cases "map_of (cols t) ''prix''")
  case None
  then have "\<forall>r\<in>set (rows t). cell r ''prix'' = None"
    by (auto simp: rows_def cell_row_at)
  then have "filter (\<lambda>r. \<not> on_request (str_lower (astype_str (cell r ''prix'')))) (rows t)
               = rows t"
    by (intro filter_True) (simp add: null_price_not_on_request)
  with None show ?thesis by (simp add: after_keywords_def)
next
  case (Some ps)
  have len: "length ps = length (index t)"
    using assms Some by (rule wf_df_length)
  have "rows (mask_rows (prix_mask ps) t)
          = filter (\<lambda>r. \<not> on_request (str_lower (astype_str (cell r ''prix'')))) (rows t)"
  proof (rule rows_filter [OF assms])
    show "length (prix_mask ps) = length (index t)"
      using len by (simp add: prix_mask_def)
  next
    fix i assume "i < length (index t)"
    then show "prix_mask ps ! i
                 = (\<not> on_request (str_lower (astype_str (cell (row_at t i) ''prix''))))"
      using len Some by (simp add: prix_mask_def cell_row_at)
  qed
  with Some show ?thesis by (simp add: after_keywords_def)
qed

lemma parsed_prices_column:
  assumes "wf_df t" and "map_of (cols t) ''prix'' = Some ps"
  shows "parsed_prices t = dropna (map price_of ps)"
proof -
  have len: "length ps = length (index t)"
    using assms by (rule wf_df_length)
  have "map (\<lambda>r. price_of (cell r ''prix'')) (rows t) = map price_of ps"
    using len assms(2) by (intro nth_equalityI) (simp_all add: rows_def cell_row_at)
  then show ?thesis by (simp add: parsed_prices_def)
qed

lemma drop_prix_num_mask_rows:
  "drop_prix_num (drop_prix_num (mask_rows m (set_prix_num nums t)))
     = mask_rows m (drop_prix_num t)"
  by (simp add: drop_prix_num_def mask_rows_def set_prix_num_def filter_map o_def
      case_prod_beta)

lemma after_outliers_rows:
  assumes "wf_df t"
  shows "rows (drop_prix_num (after_outliers t))
           = filter (\<lambda>r. \<not> outlier t r) (rows (drop_prix_num t))"
proof (cases "map_of (cols t) ''prix''")
  case None
  then have "\<forall>r\<in>set (rows (drop_prix_num t)). \<not> outlier t r"
    by (auto simp: rows_def cell_row_at prix_drop_prix_num outlier_def null_price_unparsed)
  then have "filter (\<lambda>r. \<not> outlier t r) (rows (drop_prix_num t)) = rows (drop_prix_num t)"
    by (intro filter_True) simp
  with None show ?thesis by (simp add: after_outliers_def)
next
  case (Some ps)
  have len: "length ps = length (index t)"
    using assms Some by (rule wf_df_length)
  have pp: "parsed_prices t = dropna (map price_of ps)"
    using assms Some by (rule parsed_prices_column)
  show ?thesis
  proof (cases "index t = []")
    case True
    then have "rows (drop_prix_num t) = []"
      by (simp add: rows_def drop_prix_num_def)
    with True Some show ?thesis by (simp add: after_outliers_def)
  next
    case False
    show ?thesis
    proof (cases "dropna (map price_of ps) = []")
      case True
      have "\<forall>r\<in>set (rows (drop_prix_num t)). \<not> outlier t r"
        using True pp by (simp add: outlier_def split: option.split)
      then have "filter (\<lambda>r. \<not> outlier t r) (rows (drop_prix_num t)) = rows (drop_prix_num t)"
        by (intro filter_True) simp
      moreover have "drop_prix_num (drop_prix_num (set_prix_num (map price_of ps) t))
                       = drop_prix_num t"
        by (simp add: drop_prix_num_def set_prix_num_def)
      ultimately show ?thesis
        using True False Some by (simp add: after_outliers_def Let_def)
    next
      case valid: False
      let ?seuil = "mean (dropna (map price_of ps)) / 2"
      let ?m = "seuil_mask ?seuil (map price_of ps)"
      have "rows (mask_rows ?m (drop_prix_num t))
              = filter (\<lambda>r. \<not> outlier t r) (rows (drop_prix_num t))"
      proof (rule rows_filter [OF wf_drop_prix_num [OF assms]])
        show "length ?m = length (index (drop_prix_num t))"
          using len by (simp add: seuil_mask_def drop_prix_num_def)
      next
        fix i assume "i < length (index (drop_prix_num t))"
        then have i: "i < length ps"
          using len by (simp add: drop_prix_num_def)
        have "cell (row_at (drop_prix_num t) i) ''prix'' = ps ! i"
          using Some by (simp add: cell_row_at prix_drop_prix_num)
        then show "?m ! i = (\<not> outlier t (row_at (drop_prix_num t) i))"
          using i valid pp
          by (simp add: seuil_mask_def outlier_def not_less split: option.split)
      qed
      then show ?thesis
        using valid False Some
        by (simp add: after_outliers_def Let_def drop_prix_num_mask_rows)
    qed
  qed
qed

lemma wf_after_names: "wf_df df \<Longrightarrow> wf_df (after_names df)"
  by (auto simp: after_names_def nom_mask_def wf_df_length intro!: wf_mask_rows
      split: option.split)

lemma wf_after_keywords: "wf_df df \<Longrightarrow> wf_df (after_keywords df)"
  by (auto simp: after_keywords_def prix_mask_def wf_df_length intro!: wf_mask_rows
      split: option.split)





text \<open>
  C7. Among the rows that survive the name filter, block 2 keeps exactly the rows whose
  price text, lower-cased, contains none of the four keywords, in their order. A row with
  no price text (a null cell, or no price column at all) is kept by block 2, and block 3,
  which runs next, keeps it too.
\<close>

theorem keyword_rule_drops_exactly_requests:
  assumes "wf_df df"
  shows "rows (after_keywords (after_names df))
           = filter
               (\<lambda>r. \<not> list_ex (\<lambda>k. contains k (str_lower (astype_str (cell r ''prix''))))
                        [''demande'', CHR ''n'' # CHR 0xE9 # ''gociable'', ''contacter'',
                         ''appeler''])
               (rows (after_names df))
         \<and> (\<forall>r\<in>set (rows (after_names df)).
               cell r ''prix'' = None \<longrightarrow> r \<in> set (rows (after_keywords (after_names df))))
         \<and> (\<forall>r\<in>set (rows (drop_prix_num (after_keywords (after_names df)))).
               cell r ''prix'' = None \<longrightarrow>
               r \<in> set (rows (drop_prix_num (after_outliers (after_keywords (after_names df))))))"
proof -
  have w1: "wf_df (after_names df)"
    using assms by (rule wf_after_names)
  have w2: "wf_df (after_keywords (after_names df))"
    using w1 by (rule wf_after_keywords)
  have k: "rows (after_keywords (after_names df))
             = filter (\<lambda>r. \<not> on_request (str_lower (astype_str (cell r ''prix''))))
                 (rows (after_names df))"
    using w1 by (rule after_keywords_rows)
  have o: "rows (drop_prix_num (after_outliers (after_keywords (after_names df))))
             = filter (\<lambda>r. \<not> outlier (after_keywords (after_names df)) r)
                 (rows (drop_prix_num (after_keywords (after_names df))))"
    using w2 by (rule after_outliers_rows)
  show ?thesis
  proof (intro conjI ballI impI)
    show "rows (after_keywords (after_names df))
           = filter
               (\<lambda>r. \<not> list_ex (\<lambda>k. contains k (str_lower (astype_str (cell r ''prix''))))
                        [''demande'', CHR ''n'' # CHR 0xE9 # ''gociable'', ''contacter'',
                         ''appeler''])
               (rows (after_names df))"
      using k by (simp only: on_request_def keywords_list_def)
  next
    fix r assume "r \<in> set (rows (after_names df))" and "cell r ''prix'' = None"
    then show "r \<in> set (rows (after_keywords (after_names df)))"
      by (simp add: k null_price_not_on_request)
  next
    fix r
    assume "r \<in> set (rows (drop_prix_num (after_keywords (after_names df))))"
      and "cell r ''prix'' = None"
    then show "r \<in> set (rows (drop_prix_num (after_outliers (after_keywords (after_names df)))))"
      by (simp add: o outlier_def null_price_unparsed)
  qed
qed

theorem keyword_rule_drops_exactly_requests_witness:
  "wf_df raw_example
   \<and> rows (after_keywords (after_names raw_example))
       = filter
           (\<lambda>r. \<not> list_ex (\<lambda>k. contains k (str_lower (astype_str (cell r ''prix''))))
                    [''demande'', CHR ''n'' # CHR 0xE9 # ''gociable'', ''contacter'',
                     ''appeler''])
           (rows (after_names raw_example))
   \<and> map fst (rows (after_names raw_example)) = [0, 1, 3, 4, 5]
   \<and> map fst (rows (after_keywords (after_names raw_example))) = [0, 1, 4, 5]"
proof -
  have w: "wf_df raw_example" by code_simp
  have a: "map fst (rows (after_names raw_example)) = [0, 1, 3, 4, 5]" by code_simp
  have b: "map fst (rows (after_keywords (after_names raw_example))) = [0, 1, 4, 5]"
    by code_simp
  show ?thesis
    using keyword_rule_drops_exactly_requests [OF w] w a b by simp
qed



section \<open>The shape of the returned table\<close>

























section \<open>Tables the filters leave alone\<close>











subsection \<open>The suffix a repeated name gets\<close>

lemma new_noms_nth:
  "i < length xs \<Longrightarrow>
     new_noms counts xs ! i =
       (let n = (case counts (xs ! i) of None \<Rightarrow> 0 | Some k \<Rightarrow> k + 1)
                  + count_list (take i xs) (xs ! i)
        in if n = 0 then xs ! i else Some (astype_str (xs ! i) @ '' '' @ str_of_nat n))"
proof (induction xs arbitrary: counts i)
  case Nil
  then show ?case by simp
next
  case (Cons x xs)
  show ?case
  proof (cases i)
    case 0
    then show ?thesis by (simp split: option.split)
  next
    case (Suc j)
    then have j: "j < length xs"
      using Cons.prems by simp
    have cnt: "count_list (take i (x # xs)) ((x # xs) ! i)
                 = (if x = xs ! j then 1 else 0) + count_list (take j xs) (xs ! j)"
      using Suc by simp
    show ?thesis
    proof (cases "counts x")
      case None
      have "new_noms counts (x # xs) ! i = new_noms (counts(x \<mapsto> 0)) xs ! j"
        using None Suc by simp
      moreover have "(case (counts(x \<mapsto> 0)) (xs ! j) of None \<Rightarrow> 0 | Some k \<Rightarrow> k + 1)
          = (if x = xs ! j then 1 else 0)
            + (case counts (xs ! j) of None \<Rightarrow> 0 | Some k \<Rightarrow> k + 1)"
        using None by auto
      ultimately show ?thesis
        using Cons.IH [OF j, of "counts(x \<mapsto> 0)"] cnt Suc
        by (simp only: Let_def nth_Cons_Suc) (simp add: add.commute add.left_commute)
    next
      case (Some k)
      have "new_noms counts (x # xs) ! i = new_noms (counts(x \<mapsto> k + 1)) xs ! j"
        using Some Suc by simp
      moreover have "(case (counts(x \<mapsto> k + 1)) (xs ! j) of None \<Rightarrow> 0 | Some k \<Rightarrow> k + 1)
          = (if x = xs ! j then 1 else 0)
            + (case counts (xs ! j) of None \<Rightarrow> 0 | Some k \<Rightarrow> k + 1)"
        using Some by auto
      ultimately show ?thesis
        using Cons.IH [OF j, of "counts(x \<mapsto> k + 1)"] cnt Suc
        by (simp only: Let_def nth_Cons_Suc) (simp add: add.commute add.left_commute)
    qed
  qed
qed

lemma new_noms_rule:
  "i < length xs \<Longrightarrow>
     new_noms Map.empty xs ! i =
       (if count_list (take i xs) (xs ! i) = 0 then xs ! i
        else Some (astype_str (xs ! i) @ '' '' @ str_of_nat (count_list (take i xs) (xs ! i))))"
  by (simp add: new_noms_nth Let_def)

text \<open>
  C1. The names of the cleaned table are not always distinct. For the names Chien, Chien,
  Chien 1 the second row is renamed Chien 1, and the third row, the first of its own
  name, keeps the name Chien 1: two rows of the result share a name.
\<close>

theorem suffixed_name_meets_existing_name:
  "map_of (cols (returned (clean_beautifulsoup_data (fst (alloc new_store colliding_names)) 0)))
     ''nom''
     = Some [Some ''Chien'', Some ''Chien 1'', Some ''Chien 1'']
   \<and> \<not> distinct [Some ''Chien'', Some ''Chien 1'', Some ''Chien 1'']"
  by (simp add: returned_clean alloc_def new_store_def) code_simp

section \<open>Cleaning a cleaned table\<close>














end
